theory Spec2Isabelle
  imports Main "HOL-Library.Sublist" "HOL-Library.Word"
begin

section \<open>The yt-dlp audio download service (ytdlp-service/app.py)\<close>

text \<open>
  The service is one Flask module with two handlers, \<open>health\<close> and \<open>download\<close>. The
  handlers are embedded as functions of the process configuration, the request and an
  explicit state (the filesystem, the records written to the logger, and the order of the
  operations on the served file). What the
  handlers call but do not define (the JSON parser of the request, the naming of temporary
  directories, the yt-dlp pipeline) is an input of the model: the outcome of
  \<open>request.get_json()\<close> is a field of the request, the pipeline is a function in the
  environment that returns whether it raised and the filesystem it left.
\<close>

subsection \<open>Python values\<close>

text \<open>
  A decoded JSON body. Numbers are integers here; an object is the list of its items.
\<close>

datatype json =
    JNull
  | JBool bool
  | JInt int
  | JStr string
  | JArr "json list"
  | JObj "(string \<times> json) list"

text \<open>Python's truth value of a decoded JSON value, as tested by \<open>if not url\<close>.\<close>

fun truthy :: "json \<Rightarrow> bool" where
  "truthy JNull = False"
| "truthy (JBool b) = b"
| "truthy (JInt n) = (n \<noteq> 0)"
| "truthy (JStr s) = (s \<noteq> [])"
| "truthy (JArr xs) = (xs \<noteq> [])"
| "truthy (JObj kvs) = (kvs \<noteq> [])"

fun type_name :: "json \<Rightarrow> string" where
  "type_name JNull = ''NoneType''"
| "type_name (JBool b) = ''bool''"
| "type_name (JInt n) = ''int''"
| "type_name (JStr s) = ''str''"
| "type_name (JArr xs) = ''list''"
| "type_name (JObj kvs) = ''dict''"

text \<open>
  Exceptions, as the two \<open>except\<close> clauses of \<open>download\<close> tell them apart:
  \<open>yt_dlp.utils.DownloadError\<close> with its message, and any other instance of
  \<open>Exception\<close> with its class name and message. \<open>str_exn\<close> is \<open>str(e)\<close>.
  These are the exceptions the operations of the handler raise; \<open>KeyboardInterrupt\<close> and
  \<open>SystemExit\<close>, which are no instances of \<open>Exception\<close>, are signals to the process
  and not part of the model.
\<close>

datatype exn =
    DownloadError string
  | OtherError string string

fun str_exn :: "exn \<Rightarrow> string" where
  "str_exn (DownloadError m) = m"
| "str_exn (OtherError c m) = m"

definition quoted :: "string \<Rightarrow> string" where
  "quoted s = CHR 0x27 # s @ [CHR 0x27]"

text \<open>
  \<open>data.get(k)\<close>: on a dict the value of the key or \<open>None\<close>; every other decoded
  value has no attribute \<open>get\<close> and the call raises \<open>AttributeError\<close>.
\<close>

fun py_get :: "json \<Rightarrow> string \<Rightarrow> exn + json" where
  "py_get (JObj kvs) k = Inr (case map_of kvs k of None \<Rightarrow> JNull | Some v \<Rightarrow> v)"
| "py_get v k =
     Inl (OtherError ''AttributeError''
            (quoted (type_name v) @ '' object has no attribute '' @ quoted ''get''))"

definition startswith :: "string \<Rightarrow> string \<Rightarrow> bool" where
  "startswith s p = (take (length p) s = p)"

definition endswith :: "string \<Rightarrow> string \<Rightarrow> bool" where
  "endswith s p = (length p \<le> length s \<and> drop (length s - length p) s = p)"

subsection \<open>The filesystem\<close>

type_synonym bytes = "8 word list"

datatype node = Dir | File bytes

text \<open>
  The filesystem is the list of its entries, each a path with its node, in the order in
  which a directory listing yields them.
\<close>

type_synonym filesystem = "(string \<times> node) list"

definition path_exists :: "filesystem \<Rightarrow> string \<Rightarrow> bool" where
  "path_exists fs p = (map_of fs p \<noteq> None)"

text \<open>\<open>os.path.join\<close> of two components (posixpath).\<close>

definition path_join :: "string \<Rightarrow> string \<Rightarrow> string" where
  "path_join a b =
     (if startswith b ''/'' then b
      else if a = [] \<or> endswith a ''/'' then a @ b
      else a @ ''/'' @ b)"

text \<open>
  \<open>inside d p\<close>: the path \<open>p\<close> is the directory \<open>d\<close> or lies below it.
  \<open>child_name d p\<close> is the name of \<open>p\<close> when \<open>p\<close> is an entry of the directory \<open>d\<close> itself.
\<close>

definition inside :: "string \<Rightarrow> string \<Rightarrow> bool" where
  "inside d p = (p = d \<or> prefix (d @ ''/'') p)"

definition child_name :: "string \<Rightarrow> string \<Rightarrow> string option" where
  "child_name d p =
     (let name = drop (length d + 1) p
      in if prefix (d @ ''/'') p \<and> name \<noteq> [] \<and> CHR ''/'' \<notin> set name
         then Some name else None)"

text \<open>
  \<open>Path(temp_dir).glob('audio.*')\<close>: the entries of the directory whose name matches the
  pattern, which is every name that begins with \<open>audio.\<close>, in listing order.
\<close>

definition glob_audio :: "string \<Rightarrow> filesystem \<Rightarrow> string list" where
  "glob_audio d fs =
     map fst (filter (\<lambda>(p, n). case child_name d p of
                                  None \<Rightarrow> False
                                | Some name \<Rightarrow> startswith name ''audio.'') fs)"

text \<open>
  \<open>tempfile.mkdtemp\<close>: the first candidate name that does not exist is created as an
  empty directory; when every candidate exists the call raises \<open>FileExistsError\<close>.
\<close>

fun mkdtemp :: "string list \<Rightarrow> filesystem \<Rightarrow> exn + (string \<times> filesystem)" where
  "mkdtemp [] fs =
     Inl (OtherError ''FileExistsError''
            ''[Errno 17] No usable temporary directory name found'')"
| "mkdtemp (d # ds) fs =
     (if path_exists fs d then mkdtemp ds fs else Inr (d, fs @ [(d, Dir)]))"

text \<open>The cleanup of a \<open>TemporaryDirectory\<close>: the directory and everything below it go.\<close>

definition rmtree :: "string \<Rightarrow> filesystem \<Rightarrow> filesystem" where
  "rmtree d fs = filter (\<lambda>(p, n). \<not> inside d p) fs"

subsection \<open>Requests, responses, state\<close>

datatype body =
    JsonBody json
  | FileBody (mimetype: string) (as_attachment: bool) (download_name: string)
      (file_path: string) (file_content: bytes)

record response =
  status :: nat
  body :: body

text \<open>
  The request as the handler reads it: the headers, and what \<open>request.get_json()\<close>
  does on this request, which is to raise or to return the decoded body.
\<close>

record request =
  headers :: "(string \<times> string) list"
  get_json :: "exn + json"

definition headers_get :: "(string \<times> string) list \<Rightarrow> string \<Rightarrow> string \<Rightarrow> string" where
  "headers_get hs k dflt = (case map_of hs k of None \<Rightarrow> dflt | Some v \<Rightarrow> v)"

datatype log_record =
    INFO_Downloading_audio_from json
  | INFO_Download_complete string
  | ERROR_ytdlp_download_error string
  | ERROR_Unexpected_error string

text \<open>
  The input and output of a request on the file it serves, in the order in which it happens:
  the pipeline has returned, a file has been opened, a directory tree has been removed, an
  open file has been read to its end.
\<close>

datatype event =
    Pipeline_returned
  | File_opened string
  | Tree_removed string
  | File_read string

record state =
  fs :: filesystem
  logger :: "log_record list"
  events :: "event list"

definition log_record :: "log_record \<Rightarrow> state \<Rightarrow> state" where
  "log_record l s = s\<lparr>logger := logger s @ [l]\<rparr>"

definition record_event :: "event \<Rightarrow> state \<Rightarrow> state" where
  "record_event ev s = s\<lparr>events := events s @ [ev]\<rparr>"

record postprocessor =
  key :: string
  preferredcodec :: string
  preferredquality :: string

record ydl_options =
  format :: string
  postprocessors :: "postprocessor list"
  outtmpl :: string
  quiet :: bool
  no_warnings :: bool
  extract_flat :: bool

text \<open>
  The process: \<open>API_KEY\<close> is \<open>os.environ.get('API_KEY')\<close>, read once;
  \<open>candidate_names\<close> are the names \<open>tempfile\<close> tries for this request;
  \<open>extract_info\<close> is the run of the yt-dlp pipeline with its options on a URL: it returns
  the exception it raised, if any, and the filesystem it left behind.
\<close>

record env =
  API_KEY :: "string option"
  candidate_names :: "string list"
  extract_info :: "ydl_options \<Rightarrow> json \<Rightarrow> filesystem \<Rightarrow> exn option \<times> filesystem"

definition jsonify :: "(string \<times> json) list \<Rightarrow> nat \<Rightarrow> response" where
  "jsonify d code = \<lparr>status = code, body = JsonBody (JObj d)\<rparr>"

text \<open>
  \<open>send_file\<close> opens the path when it is called: a regular file gives the 200 response
  built on the open file, whose bytes \<open>file_content\<close> are what the client receives; a
  directory or a missing path raises.
\<close>

definition send_file ::
  "filesystem \<Rightarrow> string \<Rightarrow> string \<Rightarrow> bool \<Rightarrow> string \<Rightarrow> exn + response" where
  "send_file files p mt att dn =
     (case map_of files p of
        Some (File b) \<Rightarrow> Inr \<lparr>status = 200, body = FileBody mt att dn p b\<rparr>
      | Some Dir \<Rightarrow> Inl (OtherError ''IsADirectoryError'' (''[Errno 21] Is a directory: '' @ quoted p))
      | None \<Rightarrow> Inl (OtherError ''FileNotFoundError''
                       (''[Errno 2] No such file or directory: '' @ quoted p)))"

subsection \<open>The handlers\<close>

definition health :: "env \<Rightarrow> request \<Rightarrow> state \<Rightarrow> response \<times> state" where
  "health E r s =
     (jsonify [(''status'', JStr ''healthy''),
               (''service'', JStr ''yt-dlp-audio-service''),
               (''version'', JStr ''1.0'')] 200, s)"

text \<open>Lines 35 to 38: the request is turned away with 401.\<close>

definition auth_rejects :: "env \<Rightarrow> request \<Rightarrow> bool" where
  "auth_rejects E r =
     (case API_KEY E of
        None \<Rightarrow> False
      | Some k \<Rightarrow>
          k \<noteq> [] \<and>
          (let auth_header = headers_get (headers r) ''Authorization'' []
           in \<not> startswith auth_header ''Bearer '' \<or> drop 7 auth_header \<noteq> k))"

text \<open>Lines 72 to 80: the file to serve, looked for after the pipeline returned.\<close>

definition find_audio_file :: "string \<Rightarrow> filesystem \<Rightarrow> exn + string" where
  "find_audio_file temp_dir files =
     (let audio_file = path_join temp_dir ''audio.mp3''
      in if \<not> path_exists files audio_file
         then (case glob_audio temp_dir files of
                 f # rest \<Rightarrow> Inr f
               | [] \<Rightarrow> Inl (OtherError ''Exception'' ''Downloaded file not found''))
         else Inr audio_file)"

text \<open>Lines 51 to 65: the options handed to yt-dlp.\<close>

definition ydl_opts :: "string \<Rightarrow> ydl_options" where
  "ydl_opts temp_dir =
     (let output_template = path_join temp_dir ''audio.%(ext)s''
      in \<lparr>format = ''bestaudio/best'',
          postprocessors = [\<lparr>key = ''FFmpegExtractAudio'',
                             preferredcodec = ''mp3'',
                             preferredquality = ''192''\<rparr>],
          outtmpl = output_template,
          quiet = True, no_warnings = True, extract_flat = False\<rparr>)"

text \<open>Lines 51 to 90: the body of the \<open>with tempfile.TemporaryDirectory()\<close> block.\<close>

definition in_temp_dir :: "env \<Rightarrow> json \<Rightarrow> string \<Rightarrow> state \<Rightarrow> (exn + response) \<times> state" where
  "in_temp_dir E url temp_dir s =
     (let (raised, files) = extract_info E (ydl_opts temp_dir) url (fs s);
          s1 = s\<lparr>fs := files\<rparr>
      in case raised of
           Some e \<Rightarrow> (Inl e, s1)
         | None \<Rightarrow>
             (let s2 = record_event Pipeline_returned s1
              in case find_audio_file temp_dir files of
                   Inl e \<Rightarrow> (Inl e, s2)
                 | Inr audio_file \<Rightarrow>
                     (let s3 = log_record (INFO_Download_complete audio_file) s2
                      in case send_file files audio_file ''audio/mpeg'' True ''audio.mp3'' of
                           Inl e \<Rightarrow> (Inl e, s3)
                         | Inr resp \<Rightarrow> (Inr resp, record_event (File_opened audio_file) s3))))"

text \<open>
  The \<open>with\<close> statement: the directory is created, the block runs, and the directory is
  removed when the block is left, by \<open>return\<close> or by an exception alike.
\<close>

definition with_TemporaryDirectory ::
  "string list \<Rightarrow> (string \<Rightarrow> state \<Rightarrow> (exn + response) \<times> state) \<Rightarrow> state
     \<Rightarrow> (exn + response) \<times> state" where
  "with_TemporaryDirectory names block s =
     (case mkdtemp names (fs s) of
        Inl e \<Rightarrow> (Inl e, s)
      | Inr (temp_dir, files) \<Rightarrow>
          (let (res, s1) = block temp_dir (s\<lparr>fs := files\<rparr>)
           in (res, record_event (Tree_removed temp_dir)
                      (s1\<lparr>fs := rmtree temp_dir (fs s1)\<rparr>))))"

text \<open>Lines 41 to 90: the body of the \<open>try\<close>.\<close>

definition try_block :: "env \<Rightarrow> request \<Rightarrow> state \<Rightarrow> (exn + response) \<times> state" where
  "try_block E r s =
     (case get_json r of
        Inl e \<Rightarrow> (Inl e, s)
      | Inr data \<Rightarrow>
          (case py_get data ''url'' of
             Inl e \<Rightarrow> (Inl e, s)
           | Inr url \<Rightarrow>
               if \<not> truthy url
               then (Inr (jsonify [(''error'', JStr ''No URL provided'')] 400), s)
               else with_TemporaryDirectory (candidate_names E) (in_temp_dir E url)
                      (log_record (INFO_Downloading_audio_from url) s)))"

text \<open>Lines 92 to 104: the two \<open>except\<close> clauses, in the order of the source.\<close>

fun except_clauses :: "(exn + response) \<times> state \<Rightarrow> response \<times> state" where
  "except_clauses (Inr resp, s) = (resp, s)"
| "except_clauses (Inl (DownloadError m), s) =
     (jsonify [(''error'', JStr ''Download failed''), (''details'', JStr m)] 400,
      log_record (ERROR_ytdlp_download_error m) s)"
| "except_clauses (Inl e, s) =
     (jsonify [(''error'', JStr ''Internal server error''), (''details'', JStr (str_exn e))] 500,
      log_record (ERROR_Unexpected_error (str_exn e)) s)"

definition download :: "env \<Rightarrow> request \<Rightarrow> state \<Rightarrow> response \<times> state" where
  "download E r s =
     (if auth_rejects E r
      then (jsonify [(''error'', JStr ''Unauthorized'')] 401, s)
      else except_clauses (try_block E r s))"

subsection \<open>The response on its way to the client\<close>



subsection \<open>Matches of the pattern, as the specification reads them\<close>

text \<open>
  A match of \<open><tempdir>/audio.*\<close>: the path is that of the directory, a slash, and a name
  that begins with \<open>audio.\<close> and has no further slash.
\<close>

definition audio_match :: "string \<Rightarrow> string \<Rightarrow> bool" where
  "audio_match d p =
     (prefix (d @ ''/audio.'') p \<and> CHR ''/'' \<notin> set (drop (length d + 1) p))"

subsection \<open>A substitute pipeline and sample inputs\<close>

text \<open>
  A pipeline to run the handler on: it writes one file with the given extension at the
  place the output template names, and then raises the given exception, if any.
\<close>

definition sample_pipeline ::
  "exn option \<Rightarrow> string \<Rightarrow> bytes \<Rightarrow> ydl_options \<Rightarrow> json \<Rightarrow> filesystem
     \<Rightarrow> exn option \<times> filesystem" where
  "sample_pipeline raised ext content opts url files =
     (raised, files @ [(take (length (outtmpl opts) - 7) (outtmpl opts) @ ext, File content)])"

text \<open>A pipeline that writes the named files into the directory of the output template.\<close>

definition listing_pipeline ::
  "(string \<times> bytes) list \<Rightarrow> ydl_options \<Rightarrow> json \<Rightarrow> filesystem \<Rightarrow> exn option \<times> filesystem" where
  "listing_pipeline written opts url files =
     (None, files @ map (\<lambda>(name, content).
                           (take (length (outtmpl opts) - 13) (outtmpl opts) @ name, File content))
                        written)"

definition idle_pipeline :: "ydl_options \<Rightarrow> json \<Rightarrow> filesystem \<Rightarrow> exn option \<times> filesystem" where
  "idle_pipeline opts url files = (None, files)"

definition sample_env :: env where
  "sample_env =
     \<lparr>API_KEY = None, candidate_names = [''/tmp/tmpk3x9''],
      extract_info = sample_pipeline None ''mp3'' [73, 68, 51]\<rparr>"

definition sample_state :: state where
  "sample_state = \<lparr>fs = [(''/tmp'', Dir)], logger = [], events = []\<rparr>"

definition sample_url :: json where
  "sample_url = JObj [(''url'', JStr ''https://example.org/v'')]"

section \<open>Auxiliary facts\<close>

lemma startswith_drop: "(startswith h p \<and> drop (length p) h = k) = (h = p @ k)"
proof
  assume a: "startswith h p \<and> drop (length p) h = k"
  then have "take (length p) h @ drop (length p) h = p @ k"
    by (simp add: startswith_def)
  then show "h = p @ k" by simp
next
  assume "h = p @ k"
  then show "startswith h p \<and> drop (length p) h = k"
    by (simp add: startswith_def)
qed

lemma bearer_check:
  "(\<not> startswith h ''Bearer '' \<or> drop 7 h \<noteq> k) = (h \<noteq> ''Bearer '' @ k)"
proof -
  have len: "length ''Bearer '' = (7::nat)" by simp
  have "(startswith h ''Bearer '' \<and> drop 7 h = k) = (h = ''Bearer '' @ k)"
    using startswith_drop [of h "''Bearer ''" k] unfolding len .
  then show ?thesis by blast
qed

lemma auth_rejects_iff:
  "auth_rejects E r =
     (\<exists>k. API_KEY E = Some k \<and> k \<noteq> [] \<and>
          headers_get (headers r) ''Authorization'' [] \<noteq> ''Bearer '' @ k)"
proof (cases "API_KEY E")
  case None
  then show ?thesis by (simp add: auth_rejects_def)
next
  case (Some k)
  have "auth_rejects E r =
          (k \<noteq> [] \<and> (\<not> startswith (headers_get (headers r) ''Authorization'' []) ''Bearer '' \<or>
             drop 7 (headers_get (headers r) ''Authorization'' []) \<noteq> k))"
    using Some by (simp add: auth_rejects_def Let_def)
  then show ?thesis unfolding bearer_check using Some by simp
qed

lemma status_jsonify: "status (jsonify d c) = c"
  by (simp add: jsonify_def)

lemma send_file_status: "send_file files p mt att dn = Inr resp \<Longrightarrow> status resp = 200"
  by (auto simp: send_file_def split: option.splits node.splits)

lemma in_temp_dir_status:
  assumes "fst (in_temp_dir E url d s) = Inr resp"
  shows "status resp = 200"
proof (cases "extract_info E (ydl_opts d) url (fs s)")
  case (Pair raised files)
  show ?thesis
  proof (cases raised)
    case None
    show ?thesis
    proof (cases "find_audio_file d files")
      case (Inl e)
      with Pair None assms show ?thesis by (simp add: in_temp_dir_def)
    next
      case (Inr f)
      with Pair None assms have "send_file files f ''audio/mpeg'' True ''audio.mp3'' = Inr resp"
        by (simp add: in_temp_dir_def Let_def split: sum.splits)
      then show ?thesis by (rule send_file_status)
    qed
  next
    case (Some e)
    with Pair assms show ?thesis by (simp add: in_temp_dir_def)
  qed
qed

lemma with_TemporaryDirectory_fst:
  "fst (with_TemporaryDirectory names block s) =
     (case mkdtemp names (fs s) of
        Inl e \<Rightarrow> Inl e
      | Inr (d, files) \<Rightarrow> fst (block d (s\<lparr>fs := files\<rparr>)))"
  by (simp add: with_TemporaryDirectory_def split: sum.splits prod.splits)

lemma try_block_fst:
  "fst (try_block E r s) =
     (case get_json r of
        Inl e \<Rightarrow> Inl e
      | Inr data \<Rightarrow>
          (case py_get data ''url'' of
             Inl e \<Rightarrow> Inl e
           | Inr url \<Rightarrow>
               if \<not> truthy url then Inr (jsonify [(''error'', JStr ''No URL provided'')] 400)
               else (case mkdtemp (candidate_names E) (fs s) of
                       Inl e \<Rightarrow> Inl e
                     | Inr (d, files) \<Rightarrow>
                         fst (in_temp_dir E url d
                                (log_record (INFO_Downloading_audio_from url) s\<lparr>fs := files\<rparr>)))))"
  by (simp add: try_block_def with_TemporaryDirectory_fst log_record_def split: sum.splits)

lemma try_block_status:
  assumes "fst (try_block E r s) = Inr resp"
  shows "status resp = 200 \<or> status resp = 400"
  using assms unfolding try_block_fst
  by (auto simp: status_jsonify split: sum.splits if_splits prod.splits dest: in_temp_dir_status)

lemma except_clauses_status:
  "status (fst (except_clauses (x, s))) =
     (case x of Inr resp \<Rightarrow> status resp | Inl (DownloadError m) \<Rightarrow> 400 | Inl (OtherError c m) \<Rightarrow> 500)"
  by (cases "(x, s)" rule: except_clauses.cases) (simp_all add: status_jsonify)


lemma headers_get_bearer:
  "(headers_get hs ''Authorization'' [] = ''Bearer '' @ k) =
     (map_of hs ''Authorization'' = Some (''Bearer '' @ k))"
  by (cases "map_of hs ''Authorization''") (simp_all add: headers_get_def)

lemma download_pass: "\<not> auth_rejects E r \<Longrightarrow> download E r s = except_clauses (try_block E r s)"
  by (simp add: download_def)

lemma download_pass_status:
  assumes "\<not> auth_rejects E r"
  shows "status (fst (download E r s)) \<noteq> 401"
proof -
  obtain x s' where x: "try_block E r s = (x, s')" by (cases "try_block E r s")
  have st: "status (fst (except_clauses (x, s'))) \<noteq> 401"
  proof (cases x)
    case (Inl e)
    then show ?thesis by (cases e) (simp_all add: status_jsonify)
  next
    case (Inr resp)
    with x have "fst (try_block E r s) = Inr resp" by simp
    then have "status resp = 200 \<or> status resp = 400" by (rule try_block_status)
    with Inr show ?thesis by (auto simp: except_clauses_status)
  qed
  show ?thesis unfolding download_pass [OF assms] x by (rule st)
qed

lemma in_temp_dir_API_KEY: "in_temp_dir (E\<lparr>API_KEY := a\<rparr>) url = in_temp_dir E url"
  by (rule ext)+ (simp add: in_temp_dir_def)

lemma try_block_API_KEY: "try_block (E\<lparr>API_KEY := a\<rparr>) r s = try_block E r s"
  by (simp add: try_block_def in_temp_dir_API_KEY cong: if_cong sum.case_cong)

lemma try_block_headers: "try_block E (r\<lparr>headers := h\<rparr>) s = try_block E r s"
  by (simp add: try_block_def)

section \<open>Authentication\<close>

text \<open>
  Claim C1. When a secret is configured (\<open>API_KEY\<close> holds a non-empty string \<open>k\<close>),
  every \<open>POST /download\<close> request is answered 401 with the body
  \<open>{"error": "Unauthorized"}\<close> and nothing else happens, unless its \<open>Authorization\<close>
  header is exactly \<open>Bearer \<close> followed by \<open>k\<close>; a request without the header is read as
  carrying the empty string. With exactly that header the check passes: the handler goes on
  to the \<open>try\<close> block, which begins with the validation of the body, and its answer is
  not a 401. (The configured empty string is the subject of claim C10.)
\<close>

theorem download_auth_enforced:
  assumes "API_KEY E = Some k" and "k \<noteq> []"
  shows "(map_of (headers r) ''Authorization'' \<noteq> Some (''Bearer '' @ k) \<longrightarrow>
            download E r s =
              (\<lparr>status = 401, body = JsonBody (JObj [(''error'', JStr ''Unauthorized'')])\<rparr>, s))
       \<and> (map_of (headers r) ''Authorization'' = Some (''Bearer '' @ k) \<longrightarrow>
            download E r s = except_clauses (try_block E r s)
            \<and> status (fst (download E r s)) \<noteq> 401)"
proof -
  have "auth_rejects E r = (headers_get (headers r) ''Authorization'' [] \<noteq> ''Bearer '' @ k)"
    using assms by (simp add: auth_rejects_iff)
  then have rej: "auth_rejects E r = (map_of (headers r) ''Authorization'' \<noteq> Some (''Bearer '' @ k))"
    by (simp only: headers_get_bearer)
  show ?thesis
  proof (intro conjI impI)
    assume "map_of (headers r) ''Authorization'' \<noteq> Some (''Bearer '' @ k)"
    with rej show "download E r s =
        (\<lparr>status = 401, body = JsonBody (JObj [(''error'', JStr ''Unauthorized'')])\<rparr>, s)"
      by (simp add: download_def jsonify_def)
  next
    assume "map_of (headers r) ''Authorization'' = Some (''Bearer '' @ k)"
    with rej have pass: "\<not> auth_rejects E r" by simp
    show "download E r s = except_clauses (try_block E r s)"
      using pass by (rule download_pass)
    show "status (fst (download E r s)) \<noteq> 401"
      using pass by (rule download_pass_status)
  qed
qed

theorem download_auth_enforced_witness:
  "download (sample_env\<lparr>API_KEY := Some ''s3cret''\<rparr>)
     \<lparr>headers = [(''Authorization'', ''Bearer s3cret '')], get_json = Inr sample_url\<rparr> sample_state =
     (\<lparr>status = 401, body = JsonBody (JObj [(''error'', JStr ''Unauthorized'')])\<rparr>, sample_state)
   \<and> status (fst (download (sample_env\<lparr>API_KEY := Some ''s3cret''\<rparr>)
        \<lparr>headers = [(''Authorization'', ''Bearer s3cret'')], get_json = Inr sample_url\<rparr>
        sample_state)) \<noteq> 401"
proof -
  have k: "API_KEY (sample_env\<lparr>API_KEY := Some ''s3cret''\<rparr>) = Some ''s3cret''" by simp
  have ne: "''s3cret'' \<noteq> []" by simp
  have bad: "map_of (headers \<lparr>headers = [(''Authorization'', ''Bearer s3cret '')],
                 get_json = Inr sample_url\<rparr>) ''Authorization'' \<noteq> Some (''Bearer '' @ ''s3cret'')"
    by simp
  have good: "map_of (headers \<lparr>headers = [(''Authorization'', ''Bearer s3cret'')],
                 get_json = Inr sample_url\<rparr>) ''Authorization'' = Some (''Bearer '' @ ''s3cret'')"
    by simp
  from download_auth_enforced [OF k ne] bad good show ?thesis by blast
qed

text \<open>
  Claim C10. An \<open>API_KEY\<close> set to the empty string disables authentication just as an
  unset one does: the check of lines 35 to 38 rejects no request, the handler does on every
  request what it does without a key, and the answer is never a 401.
\<close>

theorem empty_api_key_disables_auth:
  assumes "API_KEY E = Some []"
  shows "\<not> auth_rejects E r
       \<and> download E r s = download (E\<lparr>API_KEY := None\<rparr>) r s
       \<and> status (fst (download E r s)) \<noteq> 401"
proof -
  have a: "\<not> auth_rejects E r" using assms by (simp add: auth_rejects_def)
  have b: "\<not> auth_rejects (E\<lparr>API_KEY := None\<rparr>) r" by (simp add: auth_rejects_def)
  have "download E r s = download (E\<lparr>API_KEY := None\<rparr>) r s"
    unfolding download_pass [OF a] download_pass [OF b] try_block_API_KEY ..
  with a download_pass_status [OF a, of s] show ?thesis by blast
qed

theorem empty_api_key_disables_auth_witness:
  "API_KEY (sample_env\<lparr>API_KEY := Some []\<rparr>) = Some []
   \<and> download (sample_env\<lparr>API_KEY := Some []\<rparr>) \<lparr>headers = [], get_json = Inr sample_url\<rparr>
       sample_state =
     download (sample_env\<lparr>API_KEY := Some []\<rparr>\<lparr>API_KEY := None\<rparr>)
       \<lparr>headers = [], get_json = Inr sample_url\<rparr> sample_state
   \<and> status (fst (download (sample_env\<lparr>API_KEY := Some []\<rparr>)
        \<lparr>headers = [], get_json = Inr sample_url\<rparr> sample_state)) \<noteq> 401"
proof -
  have k: "API_KEY (sample_env\<lparr>API_KEY := Some []\<rparr>) = Some []" by simp
  from empty_api_key_disables_auth [OF k] k show ?thesis by blast
qed

text \<open>
  Claim C7. Without an \<open>API_KEY\<close> the headers of a request have no influence: two
  requests that differ in their headers only, whatever the headers are, get the same
  response and leave the same state.
\<close>

theorem authorization_ignored_when_unset:
  assumes "API_KEY E = None"
  shows "download E (r\<lparr>headers := h\<rparr>) s = download E r s"
  using assms by (simp add: download_def auth_rejects_def try_block_headers)

theorem authorization_ignored_when_unset_witness:
  "API_KEY sample_env = None
   \<and> download sample_env
       (\<lparr>headers = [], get_json = Inr sample_url\<rparr>\<lparr>headers := [(''Authorization'', ''Bearer x'')]\<rparr>)
       sample_state =
     download sample_env \<lparr>headers = [], get_json = Inr sample_url\<rparr> sample_state"
proof -
  have k: "API_KEY sample_env = None" by (simp add: sample_env_def)
  from authorization_ignored_when_unset [OF k] k show ?thesis by blast
qed

section \<open>The health endpoint\<close>

text \<open>
  Claim C9. \<open>GET /health\<close> answers 200 with the three fixed fields, whatever the
  configuration, the request and the state are, and it leaves the state as it found it.
\<close>

theorem health_fixed:
  "health E r s =
     (\<lparr>status = 200,
       body = JsonBody (JObj [(''status'', JStr ''healthy''),
                              (''service'', JStr ''yt-dlp-audio-service''),
                              (''version'', JStr ''1.0'')])\<rparr>, s)"
  by (simp add: health_def jsonify_def)

section \<open>Validation\<close>

text \<open>
  Claim C6. A request that passes the authentication step (or meets none) and whose body
  decodes to \<open>{}\<close> or to \<open>{"url": ""}\<close> is answered 400 with the body
  \<open>{"error": "No URL provided"}\<close>, and the state is untouched.
\<close>

theorem missing_url_400:
  assumes "\<not> auth_rejects E r"
    and "get_json r = Inr (JObj []) \<or> get_json r = Inr (JObj [(''url'', JStr [])])"
  shows "download E r s =
           (\<lparr>status = 400, body = JsonBody (JObj [(''error'', JStr ''No URL provided'')])\<rparr>, s)"
  using assms by (auto simp: download_pass try_block_def jsonify_def)

theorem missing_url_400_witness:
  "download sample_env \<lparr>headers = [], get_json = Inr (JObj [])\<rparr> sample_state =
     (\<lparr>status = 400, body = JsonBody (JObj [(''error'', JStr ''No URL provided'')])\<rparr>, sample_state)
   \<and> download (sample_env\<lparr>API_KEY := Some ''s3cret''\<rparr>)
       \<lparr>headers = [(''Authorization'', ''Bearer s3cret'')],
        get_json = Inr (JObj [(''url'', JStr [])])\<rparr> sample_state =
     (\<lparr>status = 400, body = JsonBody (JObj [(''error'', JStr ''No URL provided'')])\<rparr>, sample_state)"
proof -
  have a1: "\<not> auth_rejects sample_env \<lparr>headers = [], get_json = Inr (JObj [])\<rparr>"
    by (simp add: sample_env_def auth_rejects_def)
  have b1: "get_json \<lparr>headers = [], get_json = Inr (JObj [])\<rparr> = Inr (JObj [])
          \<or> get_json \<lparr>headers = [], get_json = Inr (JObj [])\<rparr> = Inr (JObj [(''url'', JStr [])])"
    by simp
  have a2: "\<not> auth_rejects (sample_env\<lparr>API_KEY := Some ''s3cret''\<rparr>)
              \<lparr>headers = [(''Authorization'', ''Bearer s3cret'')],
               get_json = Inr (JObj [(''url'', JStr [])])\<rparr>"
    by (simp add: auth_rejects_def headers_get_def startswith_def)
  have b2: "get_json \<lparr>headers = [(''Authorization'', ''Bearer s3cret'')],
               get_json = Inr (JObj [(''url'', JStr [])])\<rparr> = Inr (JObj [])
          \<or> get_json \<lparr>headers = [(''Authorization'', ''Bearer s3cret'')],
               get_json = Inr (JObj [(''url'', JStr [])])\<rparr> = Inr (JObj [(''url'', JStr [])])"
    by simp
  from missing_url_400 [OF a1 b1] missing_url_400 [OF a2 b2] show ?thesis by blast
qed

section \<open>The temporary directory\<close>

lemma mkdtemp_fresh:
  "mkdtemp names files0 = Inr (d, files) \<Longrightarrow>
     d \<in> set names \<and> \<not> path_exists files0 d \<and> files = files0 @ [(d, Dir)]"
  by (induction names) (auto split: if_splits)

lemma rmtree_clean: "(p, n) \<in> set (rmtree d files) \<Longrightarrow> \<not> inside d p"
  by (simp add: rmtree_def)

lemma in_temp_dir_fst:
  "extract_info E (ydl_opts d) url (fs s) = (raised, files') \<Longrightarrow>
   fst (in_temp_dir E url d s) =
     (case raised of
        Some e \<Rightarrow> Inl e
      | None \<Rightarrow> (case find_audio_file d files' of
                   Inl e \<Rightarrow> Inl e
                 | Inr f \<Rightarrow> send_file files' f ''audio/mpeg'' True ''audio.mp3''))"
  by (simp add: in_temp_dir_def Let_def split: option.splits sum.splits)

lemma in_temp_dir_fs:
  "fs (snd (in_temp_dir E url d s)) = snd (extract_info E (ydl_opts d) url (fs s))"
  by (simp add: in_temp_dir_def log_record_def record_event_def Let_def
        split: prod.splits option.splits sum.splits)

lemma with_TemporaryDirectory_fs:
  "mkdtemp names (fs s) = Inr (d, files) \<Longrightarrow>
   fs (snd (with_TemporaryDirectory names block s)) =
     rmtree d (fs (snd (block d (s\<lparr>fs := files\<rparr>))))"
  by (simp add: with_TemporaryDirectory_def record_event_def split: prod.splits)

lemma try_block_reached:
  assumes "get_json r = Inr data" and "py_get data ''url'' = Inr url" and "truthy url"
  shows "try_block E r s =
           with_TemporaryDirectory (candidate_names E) (in_temp_dir E url)
             (log_record (INFO_Downloading_audio_from url) s)"
  using assms by (simp add: try_block_def)

lemma try_block_reached_fst:
  assumes "get_json r = Inr data" and "py_get data ''url'' = Inr url" and "truthy url"
    and "mkdtemp (candidate_names E) (fs s) = Inr (d, files)"
    and "extract_info E (ydl_opts d) url files = (raised, files')"
  shows "fst (try_block E r s) =
     (case raised of
        Some e \<Rightarrow> Inl e
      | None \<Rightarrow> (case find_audio_file d files' of
                   Inl e \<Rightarrow> Inl e
                 | Inr f \<Rightarrow> send_file files' f ''audio/mpeg'' True ''audio.mp3''))"
proof -
  let ?s1 = "log_record (INFO_Downloading_audio_from url) s\<lparr>fs := files\<rparr>"
  have "fst (try_block E r s) = fst (in_temp_dir E url d ?s1)"
    using assms(1-4) by (simp add: try_block_fst)
  moreover have "extract_info E (ydl_opts d) url (fs ?s1) = (raised, files')"
    using assms(5) by simp
  ultimately show ?thesis by (simp only: in_temp_dir_fst)
qed

lemma try_block_reached_fs:
  assumes "get_json r = Inr data" and "py_get data ''url'' = Inr url" and "truthy url"
    and "mkdtemp (candidate_names E) (fs s) = Inr (d, files)"
  shows "fs (snd (try_block E r s)) = rmtree d (snd (extract_info E (ydl_opts d) url files))"
proof -
  have m: "mkdtemp (candidate_names E) (fs (log_record (INFO_Downloading_audio_from url) s)) =
             Inr (d, files)"
    using assms(4) by (simp add: log_record_def)
  show ?thesis
    unfolding try_block_reached [OF assms(1-3)] with_TemporaryDirectory_fs [OF m] in_temp_dir_fs
    by simp
qed

lemma except_clauses_fs: "fs (snd (except_clauses x)) = fs (snd x)"
  by (cases x rule: except_clauses.cases) (simp_all add: log_record_def)

text \<open>
  Claim C4. A request that reaches the extraction step is one that passed the authentication
  step, carried a truthy \<open>url\<close> and got its temporary directory \<open>temp_dir\<close> from
  \<open>mkdtemp\<close>. The directory did not exist before and was created empty for this request.
  Whatever the pipeline does then (it returns, it raises its download error, it raises
  anything else) and whatever follows in the handler, the filesystem after the request is the
  one the pipeline left with \<open>temp_dir\<close> and everything below it removed: no entry of it is
  \<open>temp_dir\<close> or lies inside it.
\<close>

theorem temp_dir_removed:
  assumes "\<not> auth_rejects E r"
    and "get_json r = Inr data" and "py_get data ''url'' = Inr url" and "truthy url"
    and "mkdtemp (candidate_names E) (fs s) = Inr (temp_dir, files)"
  shows "\<not> path_exists (fs s) temp_dir \<and> files = fs s @ [(temp_dir, Dir)]
       \<and> fs (snd (download E r s)) =
           rmtree temp_dir (snd (extract_info E (ydl_opts temp_dir) url files))
       \<and> (\<forall>(p, n) \<in> set (fs (snd (download E r s))). \<not> inside temp_dir p)"
proof -
  have eq: "fs (snd (download E r s)) =
              rmtree temp_dir (snd (extract_info E (ydl_opts temp_dir) url files))"
    unfolding download_pass [OF assms(1)] except_clauses_fs
    by (rule try_block_reached_fs [OF assms(2-5)])
  have "\<forall>(p, n) \<in> set (fs (snd (download E r s))). \<not> inside temp_dir p"
    unfolding eq using rmtree_clean by blast
  with eq mkdtemp_fresh [OF assms(5)] show ?thesis by blast
qed


lemma sample_outtmpl: "outtmpl (ydl_opts ''/tmp/tmpk3x9'') = ''/tmp/tmpk3x9/audio.%(ext)s''"
  by (simp add: ydl_opts_def path_join_def startswith_def endswith_def)

lemma sample_pipeline_run:
  "sample_pipeline raised ext content (ydl_opts ''/tmp/tmpk3x9'') url files =
     (raised, files @ [(''/tmp/tmpk3x9/audio.'' @ ext, File content)])"
  by (simp add: sample_pipeline_def sample_outtmpl)

lemma sample_env_pass:
  "\<not> auth_rejects (sample_env\<lparr>extract_info := P\<rparr>) \<lparr>headers = [], get_json = Inr sample_url\<rparr>"
  by (simp add: sample_env_def auth_rejects_def)

lemma sample_env_mkdtemp:
  "mkdtemp (candidate_names (sample_env\<lparr>extract_info := P\<rparr>)) (fs sample_state) =
     Inr (''/tmp/tmpk3x9'', [(''/tmp'', Dir), (''/tmp/tmpk3x9'', Dir)])"
  by (simp add: sample_env_def sample_state_def path_exists_def)

lemma sample_url_get: "py_get sample_url ''url'' = Inr (JStr ''https://example.org/v'')"
  by (simp add: sample_url_def)

lemma sample_get_json:
  "get_json \<lparr>headers = [], get_json = Inr sample_url\<rparr> = Inr sample_url"
  by simp

lemma sample_truthy: "truthy (JStr ''https://example.org/v'')"
  by simp

lemma sample_mp3_path: "path_join ''/tmp/tmpk3x9'' ''audio.mp3'' = ''/tmp/tmpk3x9/audio.mp3''"
  by (simp add: path_join_def startswith_def endswith_def)

theorem temp_dir_removed_witness:
  "mkdtemp (candidate_names sample_env) (fs sample_state) =
     Inr (''/tmp/tmpk3x9'', [(''/tmp'', Dir), (''/tmp/tmpk3x9'', Dir)])
   \<and> snd (extract_info sample_env (ydl_opts ''/tmp/tmpk3x9'') (JStr ''https://example.org/v'')
        [(''/tmp'', Dir), (''/tmp/tmpk3x9'', Dir)]) =
     [(''/tmp'', Dir), (''/tmp/tmpk3x9'', Dir), (''/tmp/tmpk3x9/audio.mp3'', File [73, 68, 51])]
   \<and> fs (snd (download sample_env \<lparr>headers = [], get_json = Inr sample_url\<rparr> sample_state)) =
     [(''/tmp'', Dir)]
   \<and> fs (snd (download
        (sample_env\<lparr>extract_info :=
           sample_pipeline (Some (DownloadError ''ERROR: Unsupported URL'')) ''part'' [0]\<rparr>)
        \<lparr>headers = [], get_json = Inr sample_url\<rparr> sample_state)) =
     [(''/tmp'', Dir)]"
proof -
  let ?d = "''/tmp/tmpk3x9''"
  let ?files = "[(''/tmp'', Dir), (?d, Dir)]"
  let ?u = "JStr ''https://example.org/v''"
  let ?r = "\<lparr>headers = [], get_json = Inr sample_url\<rparr>"
  let ?E = "sample_env\<lparr>extract_info :=
              sample_pipeline (Some (DownloadError ''ERROR: Unsupported URL'')) ''part'' [0]\<rparr>"
  have a1: "\<not> auth_rejects sample_env ?r"
    by (simp add: sample_env_def auth_rejects_def)
  have a5: "mkdtemp (candidate_names sample_env) (fs sample_state) = Inr (?d, ?files)"
    by (simp add: sample_env_def sample_state_def path_exists_def)
  have run: "snd (extract_info sample_env (ydl_opts ?d) ?u ?files) =
               ?files @ [(''/tmp/tmpk3x9/audio.mp3'', File [73, 68, 51])]"
    by (simp add: sample_env_def sample_pipeline_run)
  have rm: "rmtree ?d (?files @ [(''/tmp/tmpk3x9/audio.mp3'', File [73, 68, 51])]) =
              [(''/tmp'', Dir)]"
    by (simp add: rmtree_def inside_def)
  have run': "snd (extract_info ?E (ydl_opts ?d) ?u ?files) =
                ?files @ [(''/tmp/tmpk3x9/audio.part'', File [0])]"
    by (simp add: sample_pipeline_run)
  have rm': "rmtree ?d (?files @ [(''/tmp/tmpk3x9/audio.part'', File [0])]) = [(''/tmp'', Dir)]"
    by (simp add: rmtree_def inside_def)
  have "fs (snd (download sample_env ?r sample_state)) =
          rmtree ?d (snd (extract_info sample_env (ydl_opts ?d) ?u ?files))"
    by (rule temp_dir_removed [OF a1 sample_get_json sample_url_get sample_truthy a5,
          THEN conjunct2, THEN conjunct2, THEN conjunct1])
  then have g: "fs (snd (download sample_env ?r sample_state)) = [(''/tmp'', Dir)]"
    by (simp only: run rm)
  have "fs (snd (download ?E ?r sample_state)) =
          rmtree ?d (snd (extract_info ?E (ydl_opts ?d) ?u ?files))"
    by (rule temp_dir_removed [OF sample_env_pass sample_get_json sample_url_get sample_truthy
          sample_env_mkdtemp, THEN conjunct2, THEN conjunct2, THEN conjunct1])
  then have g': "fs (snd (download ?E ?r sample_state)) = [(''/tmp'', Dir)]"
    by (simp only: run' rm')
  from a5 run g g' show ?thesis by simp
qed

section \<open>Output discovery\<close>

lemma find_audio_file_cases:
  "find_audio_file d files =
     (if path_exists files (path_join d ''audio.mp3'') then Inr (path_join d ''audio.mp3'')
      else case glob_audio d files of
             f # rest \<Rightarrow> Inr f
           | [] \<Rightarrow> Inl (OtherError ''Exception'' ''Downloaded file not found''))"
  by (simp add: find_audio_file_def Let_def)

lemma send_file_regular:
  "map_of files p = Some (File b) \<Longrightarrow>
   send_file files p mt att dn = Inr \<lparr>status = 200, body = FileBody mt att dn p b\<rparr>"
  by (simp add: send_file_def)

lemma download_fst_pass:
  "\<not> auth_rejects E r \<Longrightarrow>
   fst (download E r s) =
     (case fst (try_block E r s) of
        Inr resp \<Rightarrow> resp
      | Inl (DownloadError m) \<Rightarrow>
          \<lparr>status = 400,
           body = JsonBody (JObj [(''error'', JStr ''Download failed''), (''details'', JStr m)])\<rparr>
      | Inl (OtherError c m) \<Rightarrow>
          \<lparr>status = 500,
           body = JsonBody (JObj [(''error'', JStr ''Internal server error''),
                                  (''details'', JStr m)])\<rparr>)"
  by (cases "try_block E r s" rule: except_clauses.cases)
     (simp_all add: download_pass jsonify_def)

lemma prefix_append_iff:
  "prefix (xs @ ys) p = (prefix xs p \<and> take (length ys) (drop (length xs) p) = ys)"
proof
  assume "prefix (xs @ ys) p"
  then obtain zs where "p = (xs @ ys) @ zs" by (auto simp: prefix_def)
  then show "prefix xs p \<and> take (length ys) (drop (length xs) p) = ys" by simp
next
  assume a: "prefix xs p \<and> take (length ys) (drop (length xs) p) = ys"
  then obtain q where q: "p = xs @ q" by (auto simp: prefix_def)
  with a have "take (length ys) q = ys" by simp
  then have "q = ys @ drop (length ys) q" by (metis append_take_drop_id)
  with q have "p = (xs @ ys) @ drop (length ys) q" by simp
  then show "prefix (xs @ ys) p" unfolding prefix_def by blast
qed

lemma prefix_audio:
  "prefix (d @ ''/audio.'') p =
     (prefix (d @ ''/'') p \<and> take 6 (drop (length d + 1) p) = ''audio.'')"
proof -
  have "prefix ((d @ ''/'') @ ''audio.'') p =
          (prefix (d @ ''/'') p \<and>
           take (length ''audio.'') (drop (length (d @ ''/'')) p) = ''audio.'')"
    by (rule prefix_append_iff)
  then show ?thesis by (simp add: eval_nat_numeral)
qed

lemma child_audio:
  "(case child_name d p of None \<Rightarrow> False | Some name \<Rightarrow> startswith name ''audio.'') =
     audio_match d p"
proof (cases "prefix (d @ ''/'') p \<and> take 6 (drop (length d + 1) p) = ''audio.''")
  case True
  then have ne: "drop (length d + 1) p \<noteq> []" by auto
  have l6: "length ''audio.'' = (6::nat)" by simp
  from True ne show ?thesis
    unfolding audio_match_def prefix_audio child_name_def Let_def startswith_def l6
    by simp
next
  case False
  have l6: "length ''audio.'' = (6::nat)" by simp
  from False show ?thesis
    unfolding audio_match_def prefix_audio child_name_def Let_def startswith_def l6
    by auto
qed

lemma glob_audio_filter:
  "glob_audio d files = map fst (filter (\<lambda>(p, n). audio_match d p) files)"
  by (simp add: glob_audio_def child_audio)

lemma glob_audio_first:
  assumes "files = pre @ (f, n) # post" and "audio_match d f"
    and "\<forall>(p, k) \<in> set pre. \<not> audio_match d p"
  shows "glob_audio d files = f # glob_audio d post"
proof -
  have "filter (\<lambda>(p, n). audio_match d p) pre = []"
    using assms(3) by (auto simp: filter_empty_conv)
  with assms(1,2) show ?thesis by (simp add: glob_audio_filter)
qed

lemma glob_audio_none:
  assumes "\<forall>(p, k) \<in> set files. \<not> audio_match d p"
  shows "glob_audio d files = []"
  using assms by (auto simp: glob_audio_filter filter_empty_conv)

lemma map_of_first:
  assumes "files = pre @ (f, n) # post" and "audio_match d f"
    and "\<forall>(p, k) \<in> set pre. \<not> audio_match d p"
  shows "map_of files f = Some n"
proof -
  have "f \<notin> fst ` set pre" using assms(2,3) by auto
  then have "map_of pre f = None" by (simp add: map_of_eq_None_iff)
  with assms(1) show ?thesis by (simp add: map_add_def)
qed

lemma listing_pipeline_run:
  "listing_pipeline written (ydl_opts ''/tmp/tmpk3x9'') url files =
     (None, files @ map (\<lambda>(name, content). (''/tmp/tmpk3x9/'' @ name, File content)) written)"
  by (simp add: listing_pipeline_def sample_outtmpl)

text \<open>
  Claim C5. After the pipeline has returned without raising, leaving the filesystem
  \<open>files'\<close>: when \<open>temp_dir/audio.mp3\<close> exists, it is the path handed to \<open>send_file\<close>, and
  as a regular file it is served with status 200. When it does not exist, the file handed to
  \<open>send_file\<close> and served likewise is the first match of \<open>audio.*\<close> in the listing order:
  the first entry of \<open>files'\<close> that is \<open>temp_dir\<close>, a slash and a name beginning with
  \<open>audio.\<close>, whatever matches come after it. When no entry matches, the handler raises
  \<open>Downloaded file not found\<close> and the response is the 500 error body, no file is served.
\<close>

theorem output_discovery:
  assumes "\<not> auth_rejects E r"
    and "get_json r = Inr data" and "py_get data ''url'' = Inr url" and "truthy url"
    and "mkdtemp (candidate_names E) (fs s) = Inr (temp_dir, files)"
    and "extract_info E (ydl_opts temp_dir) url files = (None, files')"
  shows "(path_exists files' (path_join temp_dir ''audio.mp3'') \<longrightarrow>
            find_audio_file temp_dir files' = Inr (path_join temp_dir ''audio.mp3'')
          \<and> fst (try_block E r s) =
              send_file files' (path_join temp_dir ''audio.mp3'') ''audio/mpeg'' True ''audio.mp3'')
       \<and> (map_of files' (path_join temp_dir ''audio.mp3'') = Some (File b) \<longrightarrow>
            fst (download E r s) =
              \<lparr>status = 200,
               body = FileBody ''audio/mpeg'' True ''audio.mp3'' (path_join temp_dir ''audio.mp3'') b\<rparr>)
       \<and> (\<not> path_exists files' (path_join temp_dir ''audio.mp3'')
          \<and> glob_audio temp_dir files' = f # rest \<longrightarrow>
            find_audio_file temp_dir files' = Inr f
          \<and> fst (try_block E r s) = send_file files' f ''audio/mpeg'' True ''audio.mp3''
          \<and> (map_of files' f = Some (File c) \<longrightarrow>
               fst (download E r s) =
                 \<lparr>status = 200, body = FileBody ''audio/mpeg'' True ''audio.mp3'' f c\<rparr>))
       \<and> (\<not> path_exists files' (path_join temp_dir ''audio.mp3'')
          \<and> glob_audio temp_dir files' = [] \<longrightarrow>
            find_audio_file temp_dir files' =
              Inl (OtherError ''Exception'' ''Downloaded file not found'')
          \<and> fst (download E r s) =
              \<lparr>status = 500,
               body = JsonBody (JObj [(''error'', JStr ''Internal server error''),
                                      (''details'', JStr ''Downloaded file not found'')])\<rparr>)
       \<and> (\<not> path_exists files' (path_join temp_dir ''audio.mp3'')
          \<and> files' = pre @ (g, n) # post \<and> audio_match temp_dir g
          \<and> (\<forall>(p, k) \<in> set pre. \<not> audio_match temp_dir p) \<longrightarrow>
            find_audio_file temp_dir files' = Inr g
          \<and> fst (try_block E r s) = send_file files' g ''audio/mpeg'' True ''audio.mp3''
          \<and> (n = File c' \<longrightarrow>
               fst (download E r s) =
                 \<lparr>status = 200, body = FileBody ''audio/mpeg'' True ''audio.mp3'' g c'\<rparr>))
       \<and> (\<not> path_exists files' (path_join temp_dir ''audio.mp3'')
          \<and> (\<forall>(p, k) \<in> set files'. \<not> audio_match temp_dir p) \<longrightarrow>
            find_audio_file temp_dir files' =
              Inl (OtherError ''Exception'' ''Downloaded file not found'')
          \<and> fst (download E r s) =
              \<lparr>status = 500,
               body = JsonBody (JObj [(''error'', JStr ''Internal server error''),
                                      (''details'', JStr ''Downloaded file not found'')])\<rparr>)"
proof -
  have t: "fst (try_block E r s) =
             (case find_audio_file temp_dir files' of
                Inl e \<Rightarrow> Inl e
              | Inr p \<Rightarrow> send_file files' p ''audio/mpeg'' True ''audio.mp3'')"
    using try_block_reached_fst [OF assms(2-6)] by simp
  note d = download_fst_pass [OF assms(1), of s]
  have c1: "path_exists files' (path_join temp_dir ''audio.mp3'') \<longrightarrow>
            find_audio_file temp_dir files' = Inr (path_join temp_dir ''audio.mp3'')
          \<and> fst (try_block E r s) =
              send_file files' (path_join temp_dir ''audio.mp3'') ''audio/mpeg'' True ''audio.mp3''"
    by (simp add: t find_audio_file_cases)
  have c2: "map_of files' (path_join temp_dir ''audio.mp3'') = Some (File b) \<longrightarrow>
            fst (download E r s) =
              \<lparr>status = 200,
               body = FileBody ''audio/mpeg'' True ''audio.mp3'' (path_join temp_dir ''audio.mp3'') b\<rparr>"
    by (simp add: d t find_audio_file_cases path_exists_def send_file_regular)
  have c3: "\<not> path_exists files' (path_join temp_dir ''audio.mp3'')
          \<and> glob_audio temp_dir files' = f # rest \<longrightarrow>
            find_audio_file temp_dir files' = Inr f
          \<and> fst (try_block E r s) = send_file files' f ''audio/mpeg'' True ''audio.mp3''
          \<and> (map_of files' f = Some (File c) \<longrightarrow>
               fst (download E r s) =
                 \<lparr>status = 200, body = FileBody ''audio/mpeg'' True ''audio.mp3'' f c\<rparr>)"
    by (simp add: d t find_audio_file_cases send_file_regular)
  have c4: "\<not> path_exists files' (path_join temp_dir ''audio.mp3'')
          \<and> glob_audio temp_dir files' = [] \<longrightarrow>
            find_audio_file temp_dir files' =
              Inl (OtherError ''Exception'' ''Downloaded file not found'')
          \<and> fst (download E r s) =
              \<lparr>status = 500,
               body = JsonBody (JObj [(''error'', JStr ''Internal server error''),
                                      (''details'', JStr ''Downloaded file not found'')])\<rparr>"
    by (simp add: d t find_audio_file_cases)
  have c5: "\<not> path_exists files' (path_join temp_dir ''audio.mp3'')
          \<and> files' = pre @ (g, n) # post \<and> audio_match temp_dir g
          \<and> (\<forall>(p, k) \<in> set pre. \<not> audio_match temp_dir p) \<longrightarrow>
            find_audio_file temp_dir files' = Inr g
          \<and> fst (try_block E r s) = send_file files' g ''audio/mpeg'' True ''audio.mp3''
          \<and> (n = File c' \<longrightarrow>
               fst (download E r s) =
                 \<lparr>status = 200, body = FileBody ''audio/mpeg'' True ''audio.mp3'' g c'\<rparr>)"
  proof (intro impI)
    assume h: "\<not> path_exists files' (path_join temp_dir ''audio.mp3'')
          \<and> files' = pre @ (g, n) # post \<and> audio_match temp_dir g
          \<and> (\<forall>(p, k) \<in> set pre. \<not> audio_match temp_dir p)"
    then have gl: "glob_audio temp_dir files' = g # glob_audio temp_dir post"
      using glob_audio_first [of files' pre g n post temp_dir] by blast
    from h have mo: "map_of files' g = Some n"
      using map_of_first [of files' pre g n post temp_dir] by blast
    from h have ne: "\<not> path_exists files' (path_join temp_dir ''audio.mp3'')" by blast
    from ne gl have fa: "find_audio_file temp_dir files' = Inr g"
      by (simp add: find_audio_file_cases)
    have tb: "fst (try_block E r s) = send_file files' g ''audio/mpeg'' True ''audio.mp3''"
      by (simp add: t fa)
    have dl: "n = File c' \<longrightarrow>
               fst (download E r s) =
                 \<lparr>status = 200, body = FileBody ''audio/mpeg'' True ''audio.mp3'' g c'\<rparr>"
      using mo by (simp add: d tb send_file_regular)
    from fa tb dl show "find_audio_file temp_dir files' = Inr g
          \<and> fst (try_block E r s) = send_file files' g ''audio/mpeg'' True ''audio.mp3''
          \<and> (n = File c' \<longrightarrow>
               fst (download E r s) =
                 \<lparr>status = 200, body = FileBody ''audio/mpeg'' True ''audio.mp3'' g c'\<rparr>)"
      by (intro conjI)
  qed
  have c6: "\<not> path_exists files' (path_join temp_dir ''audio.mp3'')
          \<and> (\<forall>(p, k) \<in> set files'. \<not> audio_match temp_dir p) \<longrightarrow>
            find_audio_file temp_dir files' =
              Inl (OtherError ''Exception'' ''Downloaded file not found'')
          \<and> fst (download E r s) =
              \<lparr>status = 500,
               body = JsonBody (JObj [(''error'', JStr ''Internal server error''),
                                      (''details'', JStr ''Downloaded file not found'')])\<rparr>"
  proof (intro impI)
    assume h: "\<not> path_exists files' (path_join temp_dir ''audio.mp3'')
          \<and> (\<forall>(p, k) \<in> set files'. \<not> audio_match temp_dir p)"
    then have gl: "glob_audio temp_dir files' = []"
      using glob_audio_none [of files' temp_dir] by blast
    from h have ne: "\<not> path_exists files' (path_join temp_dir ''audio.mp3'')" by blast
    from ne gl show "find_audio_file temp_dir files' =
              Inl (OtherError ''Exception'' ''Downloaded file not found'')
          \<and> fst (download E r s) =
              \<lparr>status = 500,
               body = JsonBody (JObj [(''error'', JStr ''Internal server error''),
                                      (''details'', JStr ''Downloaded file not found'')])\<rparr>"
      by (simp add: d t find_audio_file_cases)
  qed
  from c1 c2 c3 c4 c5 c6 show ?thesis by (intro conjI)
qed


theorem output_discovery_witness:
  "fst (download (sample_env\<lparr>extract_info := sample_pipeline None ''mp3'' [73, 68, 51]\<rparr>)
          \<lparr>headers = [], get_json = Inr sample_url\<rparr> sample_state) =
     \<lparr>status = 200,
      body = FileBody ''audio/mpeg'' True ''audio.mp3''
               (path_join ''/tmp/tmpk3x9'' ''audio.mp3'') [73, 68, 51]\<rparr>
   \<and> fst (download (sample_env\<lparr>extract_info := sample_pipeline None ''webm'' [26, 69]\<rparr>)
          \<lparr>headers = [], get_json = Inr sample_url\<rparr> sample_state) =
     \<lparr>status = 200,
      body = FileBody ''audio/mpeg'' True ''audio.mp3'' ''/tmp/tmpk3x9/audio.webm'' [26, 69]\<rparr>
   \<and> fst (download (sample_env\<lparr>extract_info := idle_pipeline\<rparr>)
          \<lparr>headers = [], get_json = Inr sample_url\<rparr> sample_state) =
     \<lparr>status = 500,
      body = JsonBody (JObj [(''error'', JStr ''Internal server error''),
                             (''details'', JStr ''Downloaded file not found'')])\<rparr>
   \<and> fst (download
          (sample_env\<lparr>extract_info :=
             listing_pipeline [(''cover.jpg'', [255]), (''audio.webm'', [26, 69]),
                               (''audio.m4a'', [0, 1])]\<rparr>)
          \<lparr>headers = [], get_json = Inr sample_url\<rparr> sample_state) =
     \<lparr>status = 200,
      body = FileBody ''audio/mpeg'' True ''audio.mp3'' ''/tmp/tmpk3x9/audio.webm'' [26, 69]\<rparr>
   \<and> audio_match ''/tmp/tmpk3x9'' ''/tmp/tmpk3x9/audio.m4a''
   \<and> fst (download
          (sample_env\<lparr>extract_info := listing_pipeline [(''cover.jpg'', [255])]\<rparr>)
          \<lparr>headers = [], get_json = Inr sample_url\<rparr> sample_state) =
     \<lparr>status = 500,
      body = JsonBody (JObj [(''error'', JStr ''Internal server error''),
                             (''details'', JStr ''Downloaded file not found'')])\<rparr>"
proof -
  let ?d = "''/tmp/tmpk3x9''"
  let ?files = "[(''/tmp'', Dir), (?d, Dir)]"
  let ?u = "JStr ''https://example.org/v''"
  have r1: "extract_info (sample_env\<lparr>extract_info := sample_pipeline None ''mp3'' [73, 68, 51]\<rparr>)
              (ydl_opts ?d) ?u ?files =
            (None, ?files @ [(''/tmp/tmpk3x9/audio.mp3'', File [73, 68, 51])])"
    by (simp add: sample_pipeline_run)
  have m1: "map_of (?files @ [(''/tmp/tmpk3x9/audio.mp3'', File [73, 68, 51])])
              (path_join ?d ''audio.mp3'') = Some (File [73, 68, 51])"
    by (simp add: sample_mp3_path)
  have r2: "extract_info (sample_env\<lparr>extract_info := sample_pipeline None ''webm'' [26, 69]\<rparr>)
              (ydl_opts ?d) ?u ?files =
            (None, ?files @ [(''/tmp/tmpk3x9/audio.webm'', File [26, 69])])"
    by (simp add: sample_pipeline_run)
  have e2: "\<not> path_exists (?files @ [(''/tmp/tmpk3x9/audio.webm'', File [26, 69])])
                (path_join ?d ''audio.mp3'')"
    by (simp add: sample_mp3_path path_exists_def)
  have g2: "glob_audio ?d (?files @ [(''/tmp/tmpk3x9/audio.webm'', File [26, 69])]) =
              ''/tmp/tmpk3x9/audio.webm'' # []"
    by (simp add: glob_audio_def child_name_def startswith_def)
  have m2: "map_of (?files @ [(''/tmp/tmpk3x9/audio.webm'', File [26, 69])])
              ''/tmp/tmpk3x9/audio.webm'' = Some (File [26, 69])"
    by simp
  have r3: "extract_info (sample_env\<lparr>extract_info := idle_pipeline\<rparr>) (ydl_opts ?d) ?u ?files =
            (None, ?files)"
    by (simp add: idle_pipeline_def)
  have e3: "\<not> path_exists ?files (path_join ?d ''audio.mp3'')"
    by (simp add: sample_mp3_path path_exists_def)
  have g3: "glob_audio ?d ?files = []"
    by (simp add: glob_audio_def child_name_def)
  have g1: "fst (download (sample_env\<lparr>extract_info := sample_pipeline None ''mp3'' [73, 68, 51]\<rparr>)
          \<lparr>headers = [], get_json = Inr sample_url\<rparr> sample_state) =
     \<lparr>status = 200,
      body = FileBody ''audio/mpeg'' True ''audio.mp3''
               (path_join ''/tmp/tmpk3x9'' ''audio.mp3'') [73, 68, 51]\<rparr>"
    by (rule output_discovery [OF sample_env_pass sample_get_json sample_url_get
          sample_truthy sample_env_mkdtemp r1, THEN conjunct2, THEN conjunct1, THEN mp, OF m1])
  have g2: "fst (download (sample_env\<lparr>extract_info := sample_pipeline None ''webm'' [26, 69]\<rparr>)
          \<lparr>headers = [], get_json = Inr sample_url\<rparr> sample_state) =
     \<lparr>status = 200,
      body = FileBody ''audio/mpeg'' True ''audio.mp3'' ''/tmp/tmpk3x9/audio.webm'' [26, 69]\<rparr>"
    by (rule output_discovery [OF sample_env_pass sample_get_json sample_url_get
          sample_truthy sample_env_mkdtemp r2, THEN conjunct2, THEN conjunct2, THEN conjunct1,
          THEN mp, THEN conjunct2, THEN conjunct2, THEN mp, OF conjI [OF e2 g2] m2])
  have g3: "fst (download (sample_env\<lparr>extract_info := idle_pipeline\<rparr>)
          \<lparr>headers = [], get_json = Inr sample_url\<rparr> sample_state) =
     \<lparr>status = 500,
      body = JsonBody (JObj [(''error'', JStr ''Internal server error''),
                             (''details'', JStr ''Downloaded file not found'')])\<rparr>"
    by (rule output_discovery [OF sample_env_pass sample_get_json sample_url_get
          sample_truthy sample_env_mkdtemp r3, THEN conjunct2, THEN conjunct2, THEN conjunct2,
          THEN conjunct1, THEN mp, THEN conjunct2, OF conjI [OF e3 g3]])
  let ?pre = "[(''/tmp'', Dir), (?d, Dir), (''/tmp/tmpk3x9/cover.jpg'', File [255])]"
  let ?post = "[(''/tmp/tmpk3x9/audio.m4a'', File [0, 1])]"
  let ?files' = "?pre @ (''/tmp/tmpk3x9/audio.webm'', File [26, 69]) # ?post"
  have r4: "extract_info
              (sample_env\<lparr>extract_info :=
                 listing_pipeline [(''cover.jpg'', [255]), (''audio.webm'', [26, 69]),
                                   (''audio.m4a'', [0, 1])]\<rparr>)
              (ydl_opts ?d) ?u ?files = (None, ?files')"
    by (simp add: listing_pipeline_run)
  have h4: "\<not> path_exists ?files' (path_join ?d ''audio.mp3'')
          \<and> ?files' = ?pre @ (''/tmp/tmpk3x9/audio.webm'', File [26, 69]) # ?post
          \<and> audio_match ?d ''/tmp/tmpk3x9/audio.webm''
          \<and> (\<forall>(p, k) \<in> set ?pre. \<not> audio_match ?d p)"
    by (simp add: sample_mp3_path path_exists_def audio_match_def)
  have m4: "audio_match ?d ''/tmp/tmpk3x9/audio.m4a''"
    by (simp add: audio_match_def)
  have g4: "fst (download
          (sample_env\<lparr>extract_info :=
             listing_pipeline [(''cover.jpg'', [255]), (''audio.webm'', [26, 69]),
                               (''audio.m4a'', [0, 1])]\<rparr>)
          \<lparr>headers = [], get_json = Inr sample_url\<rparr> sample_state) =
     \<lparr>status = 200,
      body = FileBody ''audio/mpeg'' True ''audio.mp3'' ''/tmp/tmpk3x9/audio.webm'' [26, 69]\<rparr>"
    by (rule output_discovery [OF sample_env_pass sample_get_json sample_url_get
          sample_truthy sample_env_mkdtemp r4, THEN conjunct2, THEN conjunct2, THEN conjunct2,
          THEN conjunct2, THEN conjunct1, THEN mp, THEN conjunct2,
          THEN conjunct2, THEN mp, OF h4 refl])
  let ?files5 = "[(''/tmp'', Dir), (?d, Dir), (''/tmp/tmpk3x9/cover.jpg'', File [255])]"
  have r5: "extract_info
              (sample_env\<lparr>extract_info := listing_pipeline [(''cover.jpg'', [255])]\<rparr>)
              (ydl_opts ?d) ?u ?files = (None, ?files5)"
    by (simp add: listing_pipeline_run)
  have h5: "\<not> path_exists ?files5 (path_join ?d ''audio.mp3'')
          \<and> (\<forall>(p, k) \<in> set ?files5. \<not> audio_match ?d p)"
    by (simp add: sample_mp3_path path_exists_def audio_match_def)
  have g5: "fst (download
          (sample_env\<lparr>extract_info := listing_pipeline [(''cover.jpg'', [255])]\<rparr>)
          \<lparr>headers = [], get_json = Inr sample_url\<rparr> sample_state) =
     \<lparr>status = 500,
      body = JsonBody (JObj [(''error'', JStr ''Internal server error''),
                             (''details'', JStr ''Downloaded file not found'')])\<rparr>"
    by (rule output_discovery [OF sample_env_pass sample_get_json sample_url_get
          sample_truthy sample_env_mkdtemp r5, THEN conjunct2, THEN conjunct2, THEN conjunct2,
          THEN conjunct2, THEN conjunct2, THEN mp, THEN conjunct2, OF h5])
  from g1 g2 g3 g4 m4 g5 show ?thesis by (intro conjI)
qed

section \<open>Failure translation\<close>

text \<open>
  Claim C3. For a request past the authentication step: a \<open>DownloadError\<close> raised in the
  \<open>try\<close> block gives the 400 response \<open>Download failed\<close> with the message of the
  error as \<open>details\<close>, and any other exception gives the 500 response
  \<open>Internal server error\<close> with its message; either is logged. In particular, for a
  request with a truthy \<open>url\<close> whose pipeline raises, the response is the 400 body for its
  download error and the 500 body for every other exception. The handler always returns a
  response, of status 200, 400 or 500: no exception leaves it.
\<close>

theorem failure_translation:
  assumes "\<not> auth_rejects E r"
  shows "(try_block E r s = (Inl (DownloadError m), s') \<longrightarrow>
            download E r s =
              (\<lparr>status = 400,
                body = JsonBody (JObj [(''error'', JStr ''Download failed''),
                                       (''details'', JStr m)])\<rparr>,
               log_record (ERROR_ytdlp_download_error m) s'))
       \<and> (try_block E r s = (Inl (OtherError c m), s') \<longrightarrow>
            download E r s =
              (\<lparr>status = 500,
                body = JsonBody (JObj [(''error'', JStr ''Internal server error''),
                                       (''details'', JStr m)])\<rparr>,
               log_record (ERROR_Unexpected_error m) s'))
       \<and> (get_json r = Inr data \<and> py_get data ''url'' = Inr url \<and> truthy url
          \<and> mkdtemp (candidate_names E) (fs s) = Inr (d, files)
          \<and> extract_info E (ydl_opts d) url files = (Some (DownloadError m), files') \<longrightarrow>
            fst (download E r s) =
              \<lparr>status = 400,
               body = JsonBody (JObj [(''error'', JStr ''Download failed''),
                                      (''details'', JStr m)])\<rparr>)
       \<and> (get_json r = Inr data \<and> py_get data ''url'' = Inr url \<and> truthy url
          \<and> mkdtemp (candidate_names E) (fs s) = Inr (d, files)
          \<and> extract_info E (ydl_opts d) url files = (Some (OtherError c m), files') \<longrightarrow>
            fst (download E r s) =
              \<lparr>status = 500,
               body = JsonBody (JObj [(''error'', JStr ''Internal server error''),
                                      (''details'', JStr m)])\<rparr>)
       \<and> (status (fst (download E r s)) = 200 \<or> status (fst (download E r s)) = 400
          \<or> status (fst (download E r s)) = 500)"
proof -
  note p = download_pass [OF assms, of s]
  note d = download_fst_pass [OF assms, of s]
  have c1: "try_block E r s = (Inl (DownloadError m), s') \<longrightarrow>
            download E r s =
              (\<lparr>status = 400,
                body = JsonBody (JObj [(''error'', JStr ''Download failed''),
                                       (''details'', JStr m)])\<rparr>,
               log_record (ERROR_ytdlp_download_error m) s')"
    by (simp add: p jsonify_def)
  have c2: "try_block E r s = (Inl (OtherError c m), s') \<longrightarrow>
            download E r s =
              (\<lparr>status = 500,
                body = JsonBody (JObj [(''error'', JStr ''Internal server error''),
                                       (''details'', JStr m)])\<rparr>,
               log_record (ERROR_Unexpected_error m) s')"
    by (simp add: p jsonify_def)
  have c3: "get_json r = Inr data \<and> py_get data ''url'' = Inr url \<and> truthy url
          \<and> mkdtemp (candidate_names E) (fs s) = Inr (d, files)
          \<and> extract_info E (ydl_opts d) url files = (Some (DownloadError m), files') \<longrightarrow>
            fst (download E r s) =
              \<lparr>status = 400,
               body = JsonBody (JObj [(''error'', JStr ''Download failed''),
                                      (''details'', JStr m)])\<rparr>"
    using try_block_reached_fst [of r data url E s d files "Some (DownloadError m)" files']
    by (simp add: d)
  have c4: "get_json r = Inr data \<and> py_get data ''url'' = Inr url \<and> truthy url
          \<and> mkdtemp (candidate_names E) (fs s) = Inr (d, files)
          \<and> extract_info E (ydl_opts d) url files = (Some (OtherError c m), files') \<longrightarrow>
            fst (download E r s) =
              \<lparr>status = 500,
               body = JsonBody (JObj [(''error'', JStr ''Internal server error''),
                                      (''details'', JStr m)])\<rparr>"
    using try_block_reached_fst [of r data url E s d files "Some (OtherError c m)" files']
    by (simp add: d)
  have c5: "status (fst (download E r s)) = 200 \<or> status (fst (download E r s)) = 400
          \<or> status (fst (download E r s)) = 500"
  proof (cases "fst (try_block E r s)")
    case (Inl e)
    then show ?thesis by (cases e) (simp_all add: d)
  next
    case (Inr resp)
    with try_block_status [of E r s resp] show ?thesis by (auto simp: d)
  qed
  from c1 c2 c3 c4 c5 show ?thesis by (intro conjI)
qed


theorem failure_translation_witness:
  "fst (download
          (sample_env\<lparr>extract_info :=
             sample_pipeline (Some (DownloadError ''ERROR: Unsupported URL'')) ''part'' [0]\<rparr>)
          \<lparr>headers = [], get_json = Inr sample_url\<rparr> sample_state) =
     \<lparr>status = 400,
      body = JsonBody (JObj [(''error'', JStr ''Download failed''),
                             (''details'', JStr ''ERROR: Unsupported URL'')])\<rparr>
   \<and> fst (download
          (sample_env\<lparr>extract_info :=
             sample_pipeline (Some (OtherError ''OSError'' ''[Errno 28] No space left on device''))
               ''part'' [0]\<rparr>)
          \<lparr>headers = [], get_json = Inr sample_url\<rparr> sample_state) =
     \<lparr>status = 500,
      body = JsonBody (JObj [(''error'', JStr ''Internal server error''),
                             (''details'', JStr ''[Errno 28] No space left on device'')])\<rparr>"
proof -
  let ?d = "''/tmp/tmpk3x9''"
  let ?files = "[(''/tmp'', Dir), (?d, Dir)]"
  let ?u = "JStr ''https://example.org/v''"
  let ?files' = "?files @ [(''/tmp/tmpk3x9/audio.part'', File [0])]"
  have r1: "extract_info
              (sample_env\<lparr>extract_info :=
                 sample_pipeline (Some (DownloadError ''ERROR: Unsupported URL'')) ''part'' [0]\<rparr>)
              (ydl_opts ?d) ?u ?files =
            (Some (DownloadError ''ERROR: Unsupported URL''), ?files')"
    by (simp add: sample_pipeline_run)
  have r2: "extract_info
              (sample_env\<lparr>extract_info :=
                 sample_pipeline (Some (OtherError ''OSError'' ''[Errno 28] No space left on device''))
                   ''part'' [0]\<rparr>)
              (ydl_opts ?d) ?u ?files =
            (Some (OtherError ''OSError'' ''[Errno 28] No space left on device''), ?files')"
    by (simp add: sample_pipeline_run)
  have g1: "fst (download
          (sample_env\<lparr>extract_info :=
             sample_pipeline (Some (DownloadError ''ERROR: Unsupported URL'')) ''part'' [0]\<rparr>)
          \<lparr>headers = [], get_json = Inr sample_url\<rparr> sample_state) =
     \<lparr>status = 400,
      body = JsonBody (JObj [(''error'', JStr ''Download failed''),
                             (''details'', JStr ''ERROR: Unsupported URL'')])\<rparr>"
    by (rule failure_translation [OF sample_env_pass, THEN conjunct2, THEN conjunct2,
          THEN conjunct1, THEN mp])
       (intro conjI, rule sample_get_json, rule sample_url_get, rule sample_truthy,
        rule sample_env_mkdtemp, rule r1)
  have g2: "fst (download
          (sample_env\<lparr>extract_info :=
             sample_pipeline (Some (OtherError ''OSError'' ''[Errno 28] No space left on device''))
               ''part'' [0]\<rparr>)
          \<lparr>headers = [], get_json = Inr sample_url\<rparr> sample_state) =
     \<lparr>status = 500,
      body = JsonBody (JObj [(''error'', JStr ''Internal server error''),
                             (''details'', JStr ''[Errno 28] No space left on device'')])\<rparr>"
    by (rule failure_translation [OF sample_env_pass, THEN conjunct2, THEN conjunct2,
          THEN conjunct2, THEN conjunct1, THEN mp])
       (intro conjI, rule sample_get_json, rule sample_url_get, rule sample_truthy,
        rule sample_env_mkdtemp, rule r2)
  from g1 g2 show ?thesis by (rule conjI)
qed

section \<open>Validation of the body\<close>

lemma py_get_Inr: "py_get data k = Inr u \<Longrightarrow>
  \<exists>kvs. data = JObj kvs \<and> u = (case map_of kvs k of None \<Rightarrow> JNull | Some v \<Rightarrow> v)"
  by (cases data) auto

lemma no_url_only_from_validation:
  assumes pass: "\<not> auth_rejects E r"
    and eq: "fst (download E r s) =
               \<lparr>status = 400, body = JsonBody (JObj [(''error'', JStr ''No URL provided'')])\<rparr>"
  shows "\<exists>kvs. get_json r = Inr (JObj kvs)
           \<and> \<not> truthy (case map_of kvs ''url'' of None \<Rightarrow> JNull | Some v \<Rightarrow> v)"
proof -
  note d = download_fst_pass [OF pass, of s]
  have err: False if "fst (try_block E r s) = Inl e" for e
    using eq that by (cases e) (simp_all add: d)
  show ?thesis
  proof (cases "get_json r")
    case (Inl e)
    then have "fst (try_block E r s) = Inl e" by (simp add: try_block_fst)
    then show ?thesis using err by blast
  next
    case data: (Inr data)
    show ?thesis
    proof (cases "py_get data ''url''")
      case (Inl e)
      with data have "fst (try_block E r s) = Inl e" by (simp add: try_block_fst)
      then show ?thesis using err by blast
    next
      case url: (Inr url)
      from py_get_Inr [OF url] obtain kvs where kvs: "data = JObj kvs"
        "url = (case map_of kvs ''url'' of None \<Rightarrow> JNull | Some v \<Rightarrow> v)" by blast
      show ?thesis
      proof (cases "truthy url")
        case False
        with data kvs show ?thesis by blast
      next
        case True
        show ?thesis
        proof (cases "fst (try_block E r s)")
          case (Inl e)
          then show ?thesis using err by blast
        next
          case (Inr resp)
          with data url True have "status resp = 200"
            by (auto simp: try_block_fst split: sum.splits prod.splits dest: in_temp_dir_status)
          moreover from Inr eq have "resp = \<lparr>status = 400, body = JsonBody (JObj [(''error'', JStr ''No URL provided'')])\<rparr>"
            by (simp add: d)
          ultimately show ?thesis by simp
        qed
      qed
    qed
  qed
qed

text \<open>
  Claim C2, as the code has it. For a request past the authentication step: when the body
  decodes to a JSON object that has no \<open>url\<close> item or a falsy one (\<open>null\<close>, \<open>false\<close>, \<open>0\<close>, the
  empty string, list or object), the response is 400 with the body
  \<open>{"error": "No URL provided"}\<close>, and this is the only way to that response. When
  \<open>request.get_json()\<close> raises because the body does not parse, or returns a value that is
  not an object, the exception (that of the parser, or the \<open>AttributeError\<close> of
  \<open>data.get\<close>) is caught by \<open>except Exception\<close>: the response is 500 with the body
  \<open>{"error": "Internal server error", "details": ...}\<close>.
\<close>

theorem validation_outcomes:
  assumes "\<not> auth_rejects E r"
  shows "(get_json r = Inr (JObj kvs)
          \<and> \<not> truthy (case map_of kvs ''url'' of None \<Rightarrow> JNull | Some v \<Rightarrow> v) \<longrightarrow>
            download E r s =
              (\<lparr>status = 400, body = JsonBody (JObj [(''error'', JStr ''No URL provided'')])\<rparr>, s))
       \<and> (get_json r = Inl (OtherError c m) \<longrightarrow>
            download E r s =
              (\<lparr>status = 500,
                body = JsonBody (JObj [(''error'', JStr ''Internal server error''),
                                       (''details'', JStr m)])\<rparr>,
               log_record (ERROR_Unexpected_error m) s))
       \<and> (get_json r = Inr v \<and> type_name v \<noteq> ''dict'' \<longrightarrow>
            download E r s =
              (\<lparr>status = 500,
                body = JsonBody (JObj [(''error'', JStr ''Internal server error''),
                         (''details'',
                          JStr (quoted (type_name v) @ '' object has no attribute '' @ quoted ''get''))])\<rparr>,
               log_record (ERROR_Unexpected_error
                 (quoted (type_name v) @ '' object has no attribute '' @ quoted ''get'')) s))
       \<and> (fst (download E r s) =
            \<lparr>status = 400, body = JsonBody (JObj [(''error'', JStr ''No URL provided'')])\<rparr> \<longrightarrow>
          (\<exists>kvs. get_json r = Inr (JObj kvs)
             \<and> \<not> truthy (case map_of kvs ''url'' of None \<Rightarrow> JNull | Some v \<Rightarrow> v)))"
proof -
  note p = download_pass [OF assms, of s]
  have c1: "get_json r = Inr (JObj kvs)
          \<and> \<not> truthy (case map_of kvs ''url'' of None \<Rightarrow> JNull | Some v \<Rightarrow> v) \<longrightarrow>
            download E r s =
              (\<lparr>status = 400, body = JsonBody (JObj [(''error'', JStr ''No URL provided'')])\<rparr>, s)"
    by (simp add: p try_block_def jsonify_def)
  have c2: "get_json r = Inl (OtherError c m) \<longrightarrow>
            download E r s =
              (\<lparr>status = 500,
                body = JsonBody (JObj [(''error'', JStr ''Internal server error''),
                                       (''details'', JStr m)])\<rparr>,
               log_record (ERROR_Unexpected_error m) s)"
    by (simp add: p try_block_def jsonify_def)
  have c3: "get_json r = Inr v \<and> type_name v \<noteq> ''dict'' \<longrightarrow>
            download E r s =
              (\<lparr>status = 500,
                body = JsonBody (JObj [(''error'', JStr ''Internal server error''),
                         (''details'',
                          JStr (quoted (type_name v) @ '' object has no attribute '' @ quoted ''get''))])\<rparr>,
               log_record (ERROR_Unexpected_error
                 (quoted (type_name v) @ '' object has no attribute '' @ quoted ''get'')) s)"
    by (cases v) (simp_all add: p try_block_def jsonify_def)
  have c4: "fst (download E r s) =
            \<lparr>status = 400, body = JsonBody (JObj [(''error'', JStr ''No URL provided'')])\<rparr> \<longrightarrow>
          (\<exists>kvs. get_json r = Inr (JObj kvs)
             \<and> \<not> truthy (case map_of kvs ''url'' of None \<Rightarrow> JNull | Some v \<Rightarrow> v))"
    using no_url_only_from_validation [OF assms] by blast
  from c1 c2 c3 c4 show ?thesis by (intro conjI)
qed

theorem validation_outcomes_witness:
  "download sample_env \<lparr>headers = [], get_json = Inr (JObj [(''url'', JInt 0)])\<rparr> sample_state =
     (\<lparr>status = 400, body = JsonBody (JObj [(''error'', JStr ''No URL provided'')])\<rparr>, sample_state)
   \<and> download sample_env
       \<lparr>headers = [], get_json = Inl (OtherError ''BadRequest''
                                       ''400 Bad Request: Failed to decode JSON object'')\<rparr>
       sample_state =
     (\<lparr>status = 500,
       body = JsonBody (JObj [(''error'', JStr ''Internal server error''),
                (''details'', JStr ''400 Bad Request: Failed to decode JSON object'')])\<rparr>,
      log_record (ERROR_Unexpected_error ''400 Bad Request: Failed to decode JSON object'')
        sample_state)
   \<and> fst (download sample_env \<lparr>headers = [], get_json = Inr (JArr [])\<rparr> sample_state) =
     \<lparr>status = 500,
      body = JsonBody (JObj [(''error'', JStr ''Internal server error''),
               (''details'',
                JStr (quoted ''list'' @ '' object has no attribute '' @ quoted ''get''))])\<rparr>"
proof -
  have a: "\<not> auth_rejects sample_env rq" for rq
    by (simp add: sample_env_def auth_rejects_def)
  have h1: "get_json \<lparr>headers = [], get_json = Inr (JObj [(''url'', JInt 0)])\<rparr> =
              Inr (JObj [(''url'', JInt 0)])
            \<and> \<not> truthy (case map_of [(''url'', JInt 0)] ''url'' of None \<Rightarrow> JNull | Some v \<Rightarrow> v)"
    by simp
  have h2: "get_json \<lparr>headers = [], get_json = Inl (OtherError ''BadRequest''
                                       ''400 Bad Request: Failed to decode JSON object'')\<rparr> =
            Inl (OtherError ''BadRequest'' ''400 Bad Request: Failed to decode JSON object'')"
    by simp
  have h3: "get_json \<lparr>headers = [], get_json = Inr (JArr [])\<rparr> = Inr (JArr [])
            \<and> type_name (JArr []) \<noteq> ''dict''"
    by simp
  have t3: "type_name (JArr []) = ''list''" by simp
  have g1: "download sample_env \<lparr>headers = [], get_json = Inr (JObj [(''url'', JInt 0)])\<rparr>
              sample_state =
            (\<lparr>status = 400, body = JsonBody (JObj [(''error'', JStr ''No URL provided'')])\<rparr>,
             sample_state)"
    by (rule validation_outcomes [OF a, THEN conjunct1, THEN mp]) (rule h1)
  have g2: "download sample_env
       \<lparr>headers = [], get_json = Inl (OtherError ''BadRequest''
                                       ''400 Bad Request: Failed to decode JSON object'')\<rparr>
       sample_state =
     (\<lparr>status = 500,
       body = JsonBody (JObj [(''error'', JStr ''Internal server error''),
                (''details'', JStr ''400 Bad Request: Failed to decode JSON object'')])\<rparr>,
      log_record (ERROR_Unexpected_error ''400 Bad Request: Failed to decode JSON object'')
        sample_state)"
    by (rule validation_outcomes [OF a, THEN conjunct2, THEN conjunct1, THEN mp]) (rule h2)
  have "download sample_env \<lparr>headers = [], get_json = Inr (JArr [])\<rparr> sample_state =
     (\<lparr>status = 500,
      body = JsonBody (JObj [(''error'', JStr ''Internal server error''),
               (''details'',
                JStr (quoted (type_name (JArr [])) @ '' object has no attribute '' @ quoted ''get''))])\<rparr>,
      log_record (ERROR_Unexpected_error
         (quoted (type_name (JArr [])) @ '' object has no attribute '' @ quoted ''get'')) sample_state)"
    by (rule validation_outcomes [OF a, THEN conjunct2, THEN conjunct2, THEN conjunct1, THEN mp])
       (rule h3)
  then have g3: "fst (download sample_env \<lparr>headers = [], get_json = Inr (JArr [])\<rparr> sample_state) =
     \<lparr>status = 500,
      body = JsonBody (JObj [(''error'', JStr ''Internal server error''),
               (''details'',
                JStr (quoted ''list'' @ '' object has no attribute '' @ quoted ''get''))])\<rparr>"
    unfolding t3 by simp
  from g1 g2 g3 show ?thesis by (intro conjI)
qed

text \<open>
  Claim C2 as stated fails: a body that does not parse, for which \<open>request.get_json()\<close>
  raises \<open>BadRequest\<close>, is answered 500 and not 400 \<open>No URL provided\<close>; so is a body for
  which \<open>get_json\<close> returns \<open>None\<close>.
\<close>

theorem unparsable_body_counterexample:
  "fst (download sample_env
          \<lparr>headers = [], get_json = Inl (OtherError ''BadRequest''
                                          ''400 Bad Request: Failed to decode JSON object'')\<rparr>
          sample_state) =
     \<lparr>status = 500,
      body = JsonBody (JObj [(''error'', JStr ''Internal server error''),
               (''details'', JStr ''400 Bad Request: Failed to decode JSON object'')])\<rparr>
   \<and> fst (download sample_env
          \<lparr>headers = [], get_json = Inl (OtherError ''BadRequest''
                                          ''400 Bad Request: Failed to decode JSON object'')\<rparr>
          sample_state) \<noteq>
     \<lparr>status = 400, body = JsonBody (JObj [(''error'', JStr ''No URL provided'')])\<rparr>
   \<and> fst (download sample_env \<lparr>headers = [], get_json = Inr JNull\<rparr> sample_state) \<noteq>
     \<lparr>status = 400, body = JsonBody (JObj [(''error'', JStr ''No URL provided'')])\<rparr>"
  by (simp add: download_def auth_rejects_def sample_env_def try_block_def jsonify_def)

section \<open>Reading the file and removing the directory\<close>









end
